theory Spec2Isabelle
  imports Complex_Main "HOL-Library.AList" "HOL-Library.Log_Nat"
begin

section \<open>JavaScript numbers\<close>

text \<open>
  The program computes on JavaScript numbers. A number is modelled by its IEEE 754 class:
  a finite value, the negative zero, one of the two infinities, or NaN. \<open>Fin 0\<close> is the
  positive zero. Finite values are rationals. The operations \<open>js_add\<close>, \<open>js_sub\<close>,
  \<open>js_mul\<close> and \<open>js_div\<close> below give the exact result of IEEE 754: the special values
  and the sign of zero as JavaScript has them, a finite result unrounded. JavaScript then
  rounds that result to a double; the rounding is \<open>fl\<close>, further down.
\<close>

datatype jsnum = Fin rat | NegZero | PosInf | NegInf | NaN

fun is_nan :: "jsnum \<Rightarrow> bool" where
  "is_nan NaN = True"
| "is_nan _ = False"

fun is_inf :: "jsnum \<Rightarrow> bool" where
  "is_inf PosInf = True"
| "is_inf NegInf = True"
| "is_inf _ = False"

fun is_zero :: "jsnum \<Rightarrow> bool" where
  "is_zero (Fin q) = (q = 0)"
| "is_zero NegZero = True"
| "is_zero _ = False"

text \<open>\<open>Number.isFinite\<close>.\<close>

fun is_finite :: "jsnum \<Rightarrow> bool" where
  "is_finite (Fin q) = True"
| "is_finite NegZero = True"
| "is_finite _ = False"

text \<open>The sign bit (of a number that is not NaN).\<close>

fun sign_neg :: "jsnum \<Rightarrow> bool" where
  "sign_neg (Fin q) = (q < 0)"
| "sign_neg NegZero = True"
| "sign_neg NegInf = True"
| "sign_neg _ = False"

text \<open>The value of a finite number.\<close>

fun val_of :: "jsnum \<Rightarrow> rat" where
  "val_of (Fin q) = q"
| "val_of _ = 0"

definition signed_zero :: "bool \<Rightarrow> jsnum" where
  "signed_zero neg = (if neg then NegZero else Fin 0)"

definition signed_inf :: "bool \<Rightarrow> jsnum" where
  "signed_inf neg = (if neg then NegInf else PosInf)"

text \<open>Unary minus.\<close>

fun js_neg :: "jsnum \<Rightarrow> jsnum" where
  "js_neg (Fin q) = (if q = 0 then NegZero else Fin (- q))"
| "js_neg NegZero = Fin 0"
| "js_neg PosInf = NegInf"
| "js_neg NegInf = PosInf"
| "js_neg NaN = NaN"

text \<open>\<open>a + b\<close>: a sum of zeros is negative only when both are; an exact zero sum is \<open>+0\<close>.\<close>

fun js_add :: "jsnum \<Rightarrow> jsnum \<Rightarrow> jsnum" where
  "js_add NaN _ = NaN"
| "js_add _ NaN = NaN"
| "js_add PosInf NegInf = NaN"
| "js_add NegInf PosInf = NaN"
| "js_add PosInf _ = PosInf"
| "js_add _ PosInf = PosInf"
| "js_add NegInf _ = NegInf"
| "js_add _ NegInf = NegInf"
| "js_add NegZero NegZero = NegZero"
| "js_add NegZero (Fin b) = Fin b"
| "js_add (Fin a) NegZero = Fin a"
| "js_add (Fin a) (Fin b) = Fin (a + b)"

text \<open>\<open>a - b\<close> is \<open>a + (-b)\<close>.\<close>

definition js_sub :: "jsnum \<Rightarrow> jsnum \<Rightarrow> jsnum" where
  "js_sub a b = js_add a (js_neg b)"

text \<open>\<open>a * b\<close>: the sign is the exclusive or of the signs; infinity times zero is NaN.\<close>

definition js_mul :: "jsnum \<Rightarrow> jsnum \<Rightarrow> jsnum" where
  "js_mul a b =
     (if is_nan a \<or> is_nan b then NaN
      else if (is_inf a \<and> is_zero b) \<or> (is_zero a \<and> is_inf b) then NaN
      else if is_inf a \<or> is_inf b then signed_inf (sign_neg a \<noteq> sign_neg b)
      else if is_zero a \<or> is_zero b then signed_zero (sign_neg a \<noteq> sign_neg b)
      else Fin (val_of a * val_of b))"

text \<open>
  \<open>a / b\<close> never throws: a non-zero number over a zero is an infinity, zero over zero and
  infinity over infinity are NaN.
\<close>

definition js_div :: "jsnum \<Rightarrow> jsnum \<Rightarrow> jsnum" where
  "js_div a b =
     (if is_nan a \<or> is_nan b then NaN
      else if (is_inf a \<and> is_inf b) \<or> (is_zero a \<and> is_zero b) then NaN
      else if is_inf a \<or> is_zero b then signed_inf (sign_neg a \<noteq> sign_neg b)
      else if is_inf b \<or> is_zero a then signed_zero (sign_neg a \<noteq> sign_neg b)
      else Fin (val_of a / val_of b))"

text \<open>\<open>a < b\<close>: false when either side is NaN; the two zeros are equal.\<close>

fun js_lt :: "jsnum \<Rightarrow> jsnum \<Rightarrow> bool" where
  "js_lt NaN _ = False"
| "js_lt _ NaN = False"
| "js_lt PosInf _ = False"
| "js_lt _ NegInf = False"
| "js_lt NegInf _ = True"
| "js_lt _ PosInf = True"
| "js_lt a b = (val_of a < val_of b)"

text \<open>\<open>a > b\<close> is \<open>b < a\<close>; \<open>a <= b\<close> is "not \<open>b < a\<close>" unless a side is NaN.\<close>

definition js_gt :: "jsnum \<Rightarrow> jsnum \<Rightarrow> bool" where
  "js_gt a b = js_lt b a"

definition js_le :: "jsnum \<Rightarrow> jsnum \<Rightarrow> bool" where
  "js_le a b = (\<not> is_nan a \<and> \<not> is_nan b \<and> \<not> js_lt b a)"

definition js_ge :: "jsnum \<Rightarrow> jsnum \<Rightarrow> bool" where
  "js_ge a b = js_le b a"

text \<open>\<open>a === b\<close> on numbers: NaN equals nothing, \<open>-0\<close> equals \<open>+0\<close>.\<close>

definition js_eq :: "jsnum \<Rightarrow> jsnum \<Rightarrow> bool" where
  "js_eq a b = (js_le a b \<and> js_le b a)"

text \<open>\<open>Math.abs\<close>.\<close>

definition js_abs :: "jsnum \<Rightarrow> jsnum" where
  "js_abs a = (if is_nan a then NaN else if sign_neg a then js_neg a else a)"

text \<open>
  \<open>Math.max(a, b)\<close>: NaN when either argument is NaN; \<open>+0\<close> counts as larger than
  \<open>-0\<close>.
\<close>

definition js_max :: "jsnum \<Rightarrow> jsnum \<Rightarrow> jsnum" where
  "js_max a b =
     (if is_nan a \<or> is_nan b then NaN
      else if js_lt a b then b
      else if js_lt b a then a
      else if sign_neg a then b else a)"

text \<open>The truth value of a number in a condition: \<open>+0\<close>, \<open>-0\<close> and NaN are falsy.\<close>

definition js_truthy :: "jsnum \<Rightarrow> bool" where
  "js_truthy a = (\<not> is_zero a \<and> \<not> is_nan a)"


section \<open>Rounding to double precision\<close>

text \<open>
  An arithmetic operation of JavaScript returns the exact result rounded to the nearest
  double. \<open>fl rnd x\<close> rounds the exact result \<open>x\<close> with the rounding function \<open>rnd\<close>:
  zeros, infinities and NaN are kept, a finite non-zero value is rounded (to a finite
  number, to an infinity on overflow, or to a zero with the sign of the value on underflow).
\<close>

definition fl :: "(rat \<Rightarrow> jsnum) \<Rightarrow> jsnum \<Rightarrow> jsnum" where
  "fl rnd x = (case x of Fin q \<Rightarrow> (if q = 0 then Fin 0 else rnd q) | _ \<Rightarrow> x)"





section \<open>The pricing model of \<open>App.jsx\<close>\<close>

text \<open>The \<open>inputs\<close> object of the component: five numbers.\<close>

record inputs =
  S0 :: jsnum
  Su :: jsnum
  Sd :: jsnum
  K :: jsnum
  rPct :: jsnum

text \<open>The object returned by \<open>computeOnePeriod\<close>.\<close>

record calc_result =
  Cu :: jsnum
  Cd :: jsnum
  Pu :: jsnum
  Pd :: jsnum
  C0 :: jsnum
  P0 :: jsnum
  p :: jsnum

text \<open>
  \<open>computeOnePeriod\<close>, line by line, with every operation exact (no rounding). The
  function has no check of its own: the arithmetic of JavaScript never throws, so it returns
  an object for every input.
\<close>

definition computeOnePeriod :: "inputs \<Rightarrow> calc_result" where
  "computeOnePeriod i =
     (let r = js_div (rPct i) (Fin 100);
          cu = js_max (js_sub (Su i) (K i)) (Fin 0);
          cd = js_max (js_sub (Sd i) (K i)) (Fin 0);
          pu = js_max (js_sub (K i) (Su i)) (Fin 0);
          pd = js_max (js_sub (K i) (Sd i)) (Fin 0);
          pr = js_div (js_sub (js_mul (js_add (Fin 1) r) (S0 i)) (Sd i)) (js_sub (Su i) (Sd i));
          c0 = js_div (js_add (js_mul pr cu) (js_mul (js_sub (Fin 1) pr) cd)) (js_add (Fin 1) r);
          p0 = js_div (js_add (js_mul pr pu) (js_mul (js_sub (Fin 1) pr) pd)) (js_add (Fin 1) r)
      in \<lparr>Cu = cu, Cd = cd, Pu = pu, Pd = pd, C0 = c0, P0 = p0, p = pr\<rparr>)"

text \<open>
  \<open>computeOnePeriod\<close> as JavaScript runs it: the same lines, the result of every
  addition, subtraction, multiplication and division rounded by \<open>rnd\<close> (\<open>Math.max\<close>
  returns one of its arguments and does not round). With \<open>rnd = round_double\<close> this is the
  function on doubles. \<open>discounted_strike_fl\<close> is \<open>K / (1 + rPct / 100)\<close> computed the same
  way, and \<open>arith_steps\<close> lists the exact result of every operation of the two, and of the
  two subtractions \<open>C0 - P0\<close> and \<open>S0 - K / (1 + r)\<close>, in order.
\<close>

definition computeOnePeriod_fl :: "(rat \<Rightarrow> jsnum) \<Rightarrow> inputs \<Rightarrow> calc_result" where
  "computeOnePeriod_fl rnd i =
     (let r = fl rnd (js_div (rPct i) (Fin 100));
          cu = js_max (fl rnd (js_sub (Su i) (K i))) (Fin 0);
          cd = js_max (fl rnd (js_sub (Sd i) (K i))) (Fin 0);
          pu = js_max (fl rnd (js_sub (K i) (Su i))) (Fin 0);
          pd = js_max (fl rnd (js_sub (K i) (Sd i))) (Fin 0);
          pr = fl rnd (js_div (fl rnd (js_sub (fl rnd (js_mul (fl rnd (js_add (Fin 1) r)) (S0 i))) (Sd i)))
                              (fl rnd (js_sub (Su i) (Sd i))));
          c0 = fl rnd (js_div (fl rnd (js_add (fl rnd (js_mul pr cu))
                                              (fl rnd (js_mul (fl rnd (js_sub (Fin 1) pr)) cd))))
                              (fl rnd (js_add (Fin 1) r)));
          p0 = fl rnd (js_div (fl rnd (js_add (fl rnd (js_mul pr pu))
                                              (fl rnd (js_mul (fl rnd (js_sub (Fin 1) pr)) pd))))
                              (fl rnd (js_add (Fin 1) r)))
      in \<lparr>Cu = cu, Cd = cd, Pu = pu, Pd = pd, C0 = c0, P0 = p0, p = pr\<rparr>)"



text \<open>
  The keys that \<open>validateInputs\<close> can set on its \<open>errors\<close> object. The object is an
  association list in insertion order; \<open>errors.k = msg\<close> is \<open>AList.update\<close>, which
  overwrites in place or appends. The messages are those of \<open>src/App.jsx\<close>; the second
  copy of the component differs in the wording of the messages only.
\<close>

datatype err_key = Key_S0 | Key_Su | Key_Sd | Key_K | Key_rPct | Key_upDown | Key_currentPrice

type_synonym errors = "(err_key \<times> string) list"

text \<open>\<open>Object.keys\<close>.\<close>

definition object_keys :: "errors \<Rightarrow> err_key list" where
  "object_keys errs = map fst errs"

definition validateInputs :: "inputs \<Rightarrow> errors" where
  "validateInputs i =
     (let e0 = [];
          r = js_div (rPct i) (Fin 100);
          e1 = (if \<not> js_truthy (S0 i) \<or> js_le (S0 i) (Fin 0)
                then AList.update Key_S0 ''Current asset price must be greater than 0'' e0 else e0);
          e2 = (if \<not> js_truthy (Su i) \<or> js_le (Su i) (Fin 0)
                then AList.update Key_Su ''Up-state price must be greater than 0'' e1 else e1);
          e3 = (if \<not> js_truthy (Sd i) \<or> js_le (Sd i) (Fin 0)
                then AList.update Key_Sd ''Down-state price must be greater than 0'' e2 else e2);
          e4 = (if js_lt (K i) (Fin 0)
                then AList.update Key_K ''Strike price cannot be negative'' e3 else e3);
          e5 = (if js_le r (Fin (- 1))
                then AList.update Key_rPct ''Risk-free rate must be greater than -100%'' e4 else e4);
          e6 = (if js_gt (Su i) (Fin 0) \<and> js_gt (Sd i) (Fin 0) \<and> js_le (Su i) (Sd i)
                then AList.update Key_upDown ''Up-state price must exceed down-state price'' e5
                else e5);
          e7 = (if js_gt (S0 i) (Fin 0) \<and> js_gt (Su i) (Fin 0) \<and> js_gt (Sd i) (Fin 0)
                then (if \<not> (js_lt (Sd i) (S0 i) \<and> js_lt (S0 i) (Su i))
                      then AList.update Key_currentPrice
                             ''Current price should lie between down-state and up-state prices'' e6
                      else e6)
                else e6)
      in e7)"

text \<open>
  \<open>calc\<close>: \<open>null\<close> (here \<open>None\<close>) when the errors object has a key, the result of
  \<open>computeOnePeriod\<close> otherwise.
\<close>

definition calc :: "inputs \<Rightarrow> calc_result option" where
  "calc i =
     (let inputErrors = validateInputs i
      in if length (object_keys inputErrors) > 0 then None else Some (computeOnePeriod i))"

text \<open>
  A row of chart data: a label and two channels, each a number or \<open>null\<close>. The three
  series are empty while \<open>calc\<close> is \<open>null\<close>. (The second copy of the component builds
  the same rows inside a chart component that is rendered only when \<open>calc\<close> is not
  \<open>null\<close>.)
\<close>

record point =
  t :: string
  Up :: "jsnum option"
  Down :: "jsnum option"

definition assetData :: "calc_result option \<Rightarrow> inputs \<Rightarrow> point list" where
  "assetData c i =
     (case c of
        None \<Rightarrow> []
      | Some res \<Rightarrow>
          [\<lparr>t = '' '', Up = None, Down = None\<rparr>,
           \<lparr>t = ''t = 0'', Up = Some (S0 i), Down = Some (S0 i)\<rparr>,
           \<lparr>t = ''t = 1'', Up = Some (Su i), Down = Some (Sd i)\<rparr>,
           \<lparr>t = ''  '', Up = None, Down = None\<rparr>])"

definition callData :: "calc_result option \<Rightarrow> point list" where
  "callData c =
     (case c of
        None \<Rightarrow> []
      | Some res \<Rightarrow>
          [\<lparr>t = '' '', Up = None, Down = None\<rparr>,
           \<lparr>t = ''t = 0'', Up = Some (C0 res), Down = Some (C0 res)\<rparr>,
           \<lparr>t = ''t = 1'', Up = Some (Cu res), Down = Some (Cd res)\<rparr>,
           \<lparr>t = ''  '', Up = None, Down = None\<rparr>])"

definition putData :: "calc_result option \<Rightarrow> point list" where
  "putData c =
     (case c of
        None \<Rightarrow> []
      | Some res \<Rightarrow>
          [\<lparr>t = '' '', Up = None, Down = None\<rparr>,
           \<lparr>t = ''t = 0'', Up = Some (P0 res), Down = Some (P0 res)\<rparr>,
           \<lparr>t = ''t = 1'', Up = Some (Pu res), Down = Some (Pd res)\<rparr>,
           \<lparr>t = ''  '', Up = None, Down = None\<rparr>])"

text \<open>The default state of the component, the worked example of the specification.\<close>

definition canonical :: inputs where
  "canonical = \<lparr>S0 = Fin 40, Su = Fin 56, Sd = Fin 32, K = Fin 50, rPct = Fin 5\<rparr>"



text \<open>
  The guard of each \<open>if\<close> of \<open>validateInputs\<close>, by the key it sets: the seven rules
  of the validator as the code tests them.
\<close>

fun rule_violated :: "inputs \<Rightarrow> err_key \<Rightarrow> bool" where
  "rule_violated i Key_S0 = (\<not> js_truthy (S0 i) \<or> js_le (S0 i) (Fin 0))"
| "rule_violated i Key_Su = (\<not> js_truthy (Su i) \<or> js_le (Su i) (Fin 0))"
| "rule_violated i Key_Sd = (\<not> js_truthy (Sd i) \<or> js_le (Sd i) (Fin 0))"
| "rule_violated i Key_K = js_lt (K i) (Fin 0)"
| "rule_violated i Key_rPct = js_le (js_div (rPct i) (Fin 100)) (Fin (- 1))"
| "rule_violated i Key_upDown =
     (js_gt (Su i) (Fin 0) \<and> js_gt (Sd i) (Fin 0) \<and> js_le (Su i) (Sd i))"
| "rule_violated i Key_currentPrice =
     (js_gt (S0 i) (Fin 0) \<and> js_gt (Su i) (Fin 0) \<and> js_gt (Sd i) (Fin 0)
      \<and> \<not> (js_lt (Sd i) (S0 i) \<and> js_lt (S0 i) (Su i)))"


section \<open>Arithmetic on finite numbers\<close>





lemma fin_div: "is_finite a \<Longrightarrow> is_finite b \<Longrightarrow> val_of b \<noteq> 0 \<Longrightarrow> is_finite (js_div a b) \<and> val_of (js_div a b) = val_of a / val_of b"
  by (cases a; cases b; simp add: js_div_def signed_zero_def)


lemma fin_lt: "is_finite a \<Longrightarrow> is_finite b \<Longrightarrow> js_lt a b = (val_of a < val_of b)"
  by (cases a; cases b; simp)

lemma fin_le: "is_finite a \<Longrightarrow> is_finite b \<Longrightarrow> js_le a b = (val_of a \<le> val_of b)"
  by (cases a; cases b; auto simp add: js_le_def)


lemma fin_truthy: "is_finite a \<Longrightarrow> js_truthy a = (val_of a \<noteq> 0)"
  by (cases a; simp add: js_truthy_def)

lemma rate_finite:
  "is_finite a \<Longrightarrow> is_finite (js_div a (Fin 100)) \<and> val_of (js_div a (Fin 100)) = val_of a / 100"
  using fin_div [of a "Fin 100"] by simp


section \<open>The keys set by the validator\<close>

lemma distinct_singleton:
  assumes "distinct xs" "set xs = {k}"
  shows "xs = [k]"
proof -
  from assms have "length xs = 1"
    using distinct_card [of xs] by simp
  then obtain x where "xs = [x]"
    by (cases xs) auto
  with assms show ?thesis by simp
qed

lemma keys_update: "set (object_keys (AList.update k v e)) = insert k (set (object_keys e))"
  by (simp add: object_keys_def dom_update)

lemma keys_cond:
  "set (object_keys (if c then AList.update k v e else e)) = (if c then {k} else {}) \<union> set (object_keys e)"
  by (simp add: keys_update)

lemma distinct_cond:
  "distinct (object_keys e) \<Longrightarrow> distinct (object_keys (if c then AList.update k v e else e))"
  by (simp add: object_keys_def distinct_update)

lemma keys_cond2:
  "set (object_keys (if a then (if b then AList.update k v e else e) else e))
   = (if a \<and> b then {k} else {}) \<union> set (object_keys e)"
  by (simp add: keys_update)

lemma distinct_cond2:
  "distinct (object_keys e) \<Longrightarrow>
   distinct (object_keys (if a then (if b then AList.update k v e else e) else e))"
  by (simp add: object_keys_def distinct_update)

lemma keys_Nil: "set (object_keys []) = {}"
  by (simp add: object_keys_def)

lemma validate_key_set:
  "set (object_keys (validateInputs i)) =
     (if rule_violated i Key_currentPrice then {Key_currentPrice} else {}) \<union>
     ((if rule_violated i Key_upDown then {Key_upDown} else {}) \<union>
      ((if rule_violated i Key_rPct then {Key_rPct} else {}) \<union>
       ((if rule_violated i Key_K then {Key_K} else {}) \<union>
        ((if rule_violated i Key_Sd then {Key_Sd} else {}) \<union>
         ((if rule_violated i Key_Su then {Key_Su} else {}) \<union>
          ((if rule_violated i Key_S0 then {Key_S0} else {}) \<union> {}))))))"
  by (simp only: validateInputs_def Let_def keys_cond keys_cond2 keys_Nil rule_violated.simps conj_assoc)

lemma validate_keys: "set (object_keys (validateInputs i)) = {k. rule_violated i k}"
proof -
  have "k \<in> set (object_keys (validateInputs i)) \<longleftrightarrow> rule_violated i k" for k
    by (cases k) (simp_all only: validate_key_set, simp_all)
  then show ?thesis by blast
qed

lemma validate_distinct: "distinct (object_keys (validateInputs i))"
  unfolding validateInputs_def Let_def
  by (intro distinct_cond distinct_cond2) (simp add: object_keys_def)

lemma validate_empty_iff: "validateInputs i = [] \<longleftrightarrow> (\<forall>k. \<not> rule_violated i k)"
proof -
  have "validateInputs i = [] \<longleftrightarrow> set (object_keys (validateInputs i)) = {}"
    by (simp add: object_keys_def)
  then show ?thesis by (simp add: validate_keys)
qed


text \<open>
  On a finite number the test \<open>!x\<close> adds nothing to \<open>x <= 0\<close>: the guards of the three
  price rules are \<open>S0 <= 0\<close>, \<open>Su <= 0\<close> and \<open>Sd <= 0\<close> there.
\<close>

lemma guards_on_finite:
  assumes "is_finite a"
  shows "(\<not> js_truthy a \<or> js_le a (Fin 0)) = js_le a (Fin 0)"
  using assms by (auto simp add: fin_truthy fin_le)


section \<open>The worked example\<close>

lemmas js_cmp_defs = js_truthy_def js_le_def js_gt_def js_ge_def js_eq_def
lemmas js_arith_defs = js_div_def js_mul_def js_sub_def js_max_def js_abs_def signed_zero_def signed_inf_def

lemma canonical_calc:
  "computeOnePeriod canonical =
     \<lparr>Cu = Fin 6, Cd = Fin 0, Pu = Fin 0, Pd = Fin 18, C0 = Fin (50 / 21), P0 = Fin 10, p = Fin (5 / 12)\<rparr>"
  by (simp add: computeOnePeriod_def canonical_def Let_def js_arith_defs)

lemma canonical_valid: "validateInputs canonical = []"
  by (simp add: validateInputs_def canonical_def js_cmp_defs js_div_def)


section \<open>Results exist exactly for valid inputs\<close>

text \<open>
  Claim C5. For every input, \<open>calc\<close> holds a result if and only if \<open>validateInputs\<close>
  returns the empty object; it is either \<open>null\<close> or the result of \<open>computeOnePeriod\<close>
  on that same input, so an error and a result never exist together and one of them
  always does.
\<close>

theorem calc_iff_valid:
  "(calc i \<noteq> None) = (validateInputs i = [])
   \<and> (calc i = None \<or> calc i = Some (computeOnePeriod i))"
  by (simp add: calc_def Let_def object_keys_def)

theorem calc_iff_valid_witness:
  "calc canonical = Some (computeOnePeriod canonical)
   \<and> calc (canonical\<lparr>K := Fin (- 1)\<rparr>) = None
   \<and> validateInputs (canonical\<lparr>K := Fin (- 1)\<rparr>) = [(Key_K, ''Strike price cannot be negative'')]"
proof -
  have a: "validateInputs canonical = []" by (rule canonical_valid)
  have b: "validateInputs (canonical\<lparr>K := Fin (- 1)\<rparr>) = [(Key_K, ''Strike price cannot be negative'')]"
    by (simp add: validateInputs_def canonical_def js_cmp_defs js_div_def)
  from a calc_iff_valid [of canonical] have "calc canonical = Some (computeOnePeriod canonical)"
    by auto
  moreover from b calc_iff_valid [of "canonical\<lparr>K := Fin (- 1)\<rparr>"]
  have "calc (canonical\<lparr>K := Fin (- 1)\<rparr>) = None" by auto
  ultimately show ?thesis using b by simp
qed


section \<open>The three chart series\<close>

text \<open>
  Claim C6. Whenever \<open>calc\<close> holds a result for an input, each of \<open>assetData\<close>,
  \<open>callData\<close> and \<open>putData\<close> is the four-point sequence: a spacer with both channels
  \<open>null\<close>, the point \<open>t = 0\<close> with the time-0 value (\<open>S0\<close>, \<open>C0\<close>, \<open>P0\<close>) on both
  channels, the point \<open>t = 1\<close> with the up value (\<open>Su\<close>, \<open>Cu\<close>, \<open>Pu\<close>) and the down
  value (\<open>Sd\<close>, \<open>Cd\<close>, \<open>Pd\<close>), and a closing spacer with both channels \<open>null\<close>.
\<close>

theorem series_shape:
  assumes "calc i = Some res"
  shows "assetData (calc i) i =
           [\<lparr>t = '' '', Up = None, Down = None\<rparr>,
            \<lparr>t = ''t = 0'', Up = Some (S0 i), Down = Some (S0 i)\<rparr>,
            \<lparr>t = ''t = 1'', Up = Some (Su i), Down = Some (Sd i)\<rparr>,
            \<lparr>t = ''  '', Up = None, Down = None\<rparr>]
       \<and> callData (calc i) =
           [\<lparr>t = '' '', Up = None, Down = None\<rparr>,
            \<lparr>t = ''t = 0'', Up = Some (C0 res), Down = Some (C0 res)\<rparr>,
            \<lparr>t = ''t = 1'', Up = Some (Cu res), Down = Some (Cd res)\<rparr>,
            \<lparr>t = ''  '', Up = None, Down = None\<rparr>]
       \<and> putData (calc i) =
           [\<lparr>t = '' '', Up = None, Down = None\<rparr>,
            \<lparr>t = ''t = 0'', Up = Some (P0 res), Down = Some (P0 res)\<rparr>,
            \<lparr>t = ''t = 1'', Up = Some (Pu res), Down = Some (Pd res)\<rparr>,
            \<lparr>t = ''  '', Up = None, Down = None\<rparr>]
       \<and> res = computeOnePeriod i"
  using assms by (simp add: assetData_def callData_def putData_def calc_def Let_def split: if_splits)

theorem series_shape_witness:
  "calc canonical = Some (computeOnePeriod canonical)
   \<and> assetData (calc canonical) canonical =
           [\<lparr>t = '' '', Up = None, Down = None\<rparr>,
            \<lparr>t = ''t = 0'', Up = Some (Fin 40), Down = Some (Fin 40)\<rparr>,
            \<lparr>t = ''t = 1'', Up = Some (Fin 56), Down = Some (Fin 32)\<rparr>,
            \<lparr>t = ''  '', Up = None, Down = None\<rparr>]
   \<and> callData (calc canonical) =
           [\<lparr>t = '' '', Up = None, Down = None\<rparr>,
            \<lparr>t = ''t = 0'', Up = Some (Fin (50 / 21)), Down = Some (Fin (50 / 21))\<rparr>,
            \<lparr>t = ''t = 1'', Up = Some (Fin 6), Down = Some (Fin 0)\<rparr>,
            \<lparr>t = ''  '', Up = None, Down = None\<rparr>]
   \<and> putData (calc canonical) =
           [\<lparr>t = '' '', Up = None, Down = None\<rparr>,
            \<lparr>t = ''t = 0'', Up = Some (Fin 10), Down = Some (Fin 10)\<rparr>,
            \<lparr>t = ''t = 1'', Up = Some (Fin 0), Down = Some (Fin 18)\<rparr>,
            \<lparr>t = ''  '', Up = None, Down = None\<rparr>]"
proof -
  have c: "calc canonical = Some (computeOnePeriod canonical)"
    by (simp add: calc_def Let_def canonical_valid object_keys_def)
  have s: "S0 canonical = Fin 40" "Su canonical = Fin 56" "Sd canonical = Fin 32"
    by (simp_all add: canonical_def)
  show ?thesis
    using series_shape [OF c] c s by (simp add: canonical_calc)
qed



section \<open>The values of the worked example\<close>





section \<open>The rule on the current price\<close>

text \<open>
  Claim C7 says that a non-finite \<open>S0\<close> gets the key \<open>S0\<close>. For \<open>S0 = +Infinity\<close> the
  guard \<open>!S0 || S0 <= 0\<close> is false: the only key set is \<open>currentPrice\<close>.
\<close>

theorem infinite_price_no_S0_key:
  "Key_S0 \<notin> set (object_keys (validateInputs (canonical\<lparr>S0 := PosInf\<rparr>)))
   \<and> validateInputs (canonical\<lparr>S0 := PosInf\<rparr>) =
       [(Key_currentPrice, ''Current price should lie between down-state and up-state prices'')]"
  by (simp add: validateInputs_def canonical_def js_cmp_defs js_div_def object_keys_def)

text \<open>
  Claim C7, amended. Whenever \<open>S0 <= 0\<close> (which holds for both zeros, for every negative
  number and for \<open>-Infinity\<close>) or \<open>S0\<close> is NaN, the object returned by
  \<open>validateInputs\<close> has the key \<open>S0\<close>; for \<open>S0 = +Infinity\<close> it does not.
\<close>

theorem S0_key_rule:
  "(js_le (S0 i) (Fin 0) \<or> is_nan (S0 i) \<longrightarrow> Key_S0 \<in> set (object_keys (validateInputs i)))
   \<and> (S0 i = PosInf \<longrightarrow> Key_S0 \<notin> set (object_keys (validateInputs i)))"
  by (auto simp add: validate_keys js_truthy_def js_le_def)

theorem S0_key_rule_witness:
  "Key_S0 \<in> set (object_keys (validateInputs (canonical\<lparr>S0 := Fin 0\<rparr>)))
   \<and> Key_S0 \<in> set (object_keys (validateInputs (canonical\<lparr>S0 := NegZero\<rparr>)))
   \<and> Key_S0 \<in> set (object_keys (validateInputs (canonical\<lparr>S0 := Fin (- 3)\<rparr>)))
   \<and> Key_S0 \<in> set (object_keys (validateInputs (canonical\<lparr>S0 := NegInf\<rparr>)))
   \<and> Key_S0 \<in> set (object_keys (validateInputs (canonical\<lparr>S0 := NaN\<rparr>)))
   \<and> Key_S0 \<notin> set (object_keys (validateInputs (canonical\<lparr>S0 := PosInf\<rparr>)))"
  using S0_key_rule [of "canonical\<lparr>S0 := Fin 0\<rparr>"] S0_key_rule [of "canonical\<lparr>S0 := NegZero\<rparr>"]
    S0_key_rule [of "canonical\<lparr>S0 := Fin (- 3)\<rparr>"] S0_key_rule [of "canonical\<lparr>S0 := NegInf\<rparr>"]
    S0_key_rule [of "canonical\<lparr>S0 := NaN\<rparr>"] S0_key_rule [of "canonical\<lparr>S0 := PosInf\<rparr>"]
  by (simp add: js_le_def)


section \<open>A valid input with a probability outside the unit interval\<close>

text \<open>
  Claim C8. There is an input, with five finite fields, on which \<open>validateInputs\<close> returns
  the empty object and for which the \<open>p\<close> of \<open>computeOnePeriod\<close> is a finite number
  below 0 or above 1: the worked example with a rate of 100 percent has \<open>p = 2\<close> (every
  step of that computation is exact on doubles).
\<close>

theorem valid_input_with_p_outside_unit_interval:
  "\<exists>i. validateInputs i = []
      \<and> is_finite (S0 i) \<and> is_finite (Su i) \<and> is_finite (Sd i) \<and> is_finite (K i) \<and> is_finite (rPct i)
      \<and> is_finite (p (computeOnePeriod i))
      \<and> (js_lt (p (computeOnePeriod i)) (Fin 0) \<or> js_gt (p (computeOnePeriod i)) (Fin 1))"
proof (intro exI conjI)
  let ?i = "\<lparr>S0 = Fin 40, Su = Fin 56, Sd = Fin 32, K = Fin 50, rPct = Fin 100\<rparr>"
  have pr: "p (computeOnePeriod ?i) = Fin 2"
    by (simp add: computeOnePeriod_def Let_def js_arith_defs)
  show "validateInputs ?i = []"
    by (simp add: validateInputs_def js_cmp_defs js_div_def)
  show "is_finite (p (computeOnePeriod ?i))"
    by (simp add: pr)
  show "js_lt (p (computeOnePeriod ?i)) (Fin 0) \<or> js_gt (p (computeOnePeriod ?i)) (Fin 1)"
    by (simp add: pr js_gt_def)
qed simp_all

theorem valid_input_with_p_outside_unit_interval_witness:
  "\<not> (\<forall>i. validateInputs i = [] \<longrightarrow>
          \<not> is_finite (p (computeOnePeriod i))
          \<or> (js_le (Fin 0) (p (computeOnePeriod i)) \<and> js_le (p (computeOnePeriod i)) (Fin 1)))"
  using valid_input_with_p_outside_unit_interval by (auto simp add: js_le_def js_gt_def)


section \<open>The rule on the strike\<close>

text \<open>
  Claim C9 says that a non-finite strike, \<open>-Infinity\<close> included, gets no key \<open>K\<close>. But
  \<open>-Infinity < 0\<close> is true: the strike \<open>-Infinity\<close> is rejected with the key \<open>K\<close>, and
  no result is computed.
\<close>

theorem negative_infinite_strike_rejected:
  "Key_K \<in> set (object_keys (validateInputs (canonical\<lparr>K := NegInf\<rparr>)))
   \<and> validateInputs (canonical\<lparr>K := NegInf\<rparr>) = [(Key_K, ''Strike price cannot be negative'')]
   \<and> calc (canonical\<lparr>K := NegInf\<rparr>) = None"
  by (simp add: calc_def validateInputs_def canonical_def js_cmp_defs js_div_def object_keys_def)

text \<open>
  Claim C9, amended. The object returned by \<open>validateInputs\<close> has the key \<open>K\<close> if and
  only if \<open>K < 0\<close>, which holds for \<open>-Infinity\<close>. A strike that is NaN or \<open>+Infinity\<close>
  gets no key: when the other fields are valid (the input passes with the strike replaced
  by 0), validation passes and the input is handed to \<open>computeOnePeriod\<close>.
\<close>

theorem K_key_rule:
  "(Key_K \<in> set (object_keys (validateInputs i))) = js_lt (K i) (Fin 0)
   \<and> (K i = NegInf \<longrightarrow> Key_K \<in> set (object_keys (validateInputs i)))
   \<and> ((K i = NaN \<or> K i = PosInf) \<and> validateInputs (i\<lparr>K := Fin 0\<rparr>) = []
        \<longrightarrow> validateInputs i = [] \<and> calc i = Some (computeOnePeriod i))"
proof (intro conjI impI)
  show k: "(Key_K \<in> set (object_keys (validateInputs i))) = js_lt (K i) (Fin 0)"
    by (simp add: validate_keys)
  show "Key_K \<in> set (object_keys (validateInputs i))" if "K i = NegInf"
    using that by (simp add: validate_keys)
  assume a: "(K i = NaN \<or> K i = PosInf) \<and> validateInputs (i\<lparr>K := Fin 0\<rparr>) = []"
  have "\<not> rule_violated i k" for k
  proof -
    from a have "\<not> rule_violated (i\<lparr>K := Fin 0\<rparr>) k" by (simp add: validate_empty_iff)
    with a show ?thesis by (cases k) auto
  qed
  then show v: "validateInputs i = []" by (simp add: validate_empty_iff)
  then show "calc i = Some (computeOnePeriod i)" by (simp add: calc_def object_keys_def)
qed

theorem K_key_rule_witness:
  "Key_K \<in> set (object_keys (validateInputs (canonical\<lparr>K := Fin (- 1)\<rparr>)))
   \<and> js_lt (Fin (- 1)) (Fin 0)
   \<and> Key_K \<notin> set (object_keys (validateInputs canonical))
   \<and> validateInputs (canonical\<lparr>K := NaN\<rparr>) = []
   \<and> calc (canonical\<lparr>K := NaN\<rparr>) = Some (computeOnePeriod (canonical\<lparr>K := NaN\<rparr>))
   \<and> validateInputs (canonical\<lparr>K := PosInf\<rparr>) = []
   \<and> calc (canonical\<lparr>K := PosInf\<rparr>) = Some (computeOnePeriod (canonical\<lparr>K := PosInf\<rparr>))"
proof -
  have z: "validateInputs (canonical\<lparr>K := Fin 0\<rparr>) = []"
    by (simp add: validateInputs_def canonical_def js_cmp_defs js_div_def)
  have k: "K canonical = Fin 50" by (simp add: canonical_def)
  show ?thesis
    using K_key_rule [of "canonical\<lparr>K := Fin (- 1)\<rparr>"] K_key_rule [of canonical]
      K_key_rule [of "canonical\<lparr>K := NaN\<rparr>"] K_key_rule [of "canonical\<lparr>K := PosInf\<rparr>"] z k
    by simp
qed


section \<open>The terminal payoffs\<close>

lemma max_zero: "is_nan (js_max a (Fin 0)) \<or> js_ge (js_max a (Fin 0)) (Fin 0)"
  by (cases a) (simp_all add: js_max_def js_ge_def js_le_def)

lemma max_zero_nan: "is_nan (js_max a (Fin 0)) = is_nan a"
  by (cases a) (simp_all add: js_max_def)

lemma sub_finite_not_nan: "is_finite a \<Longrightarrow> is_finite b \<Longrightarrow> \<not> is_nan (js_sub a b)"
  by (cases a; cases b; simp add: js_sub_def)

lemma payoffs:
  "Cu (computeOnePeriod i) = js_max (js_sub (Su i) (K i)) (Fin 0)"
  "Cd (computeOnePeriod i) = js_max (js_sub (Sd i) (K i)) (Fin 0)"
  "Pu (computeOnePeriod i) = js_max (js_sub (K i) (Su i)) (Fin 0)"
  "Pd (computeOnePeriod i) = js_max (js_sub (K i) (Sd i)) (Fin 0)"
  by (simp_all add: computeOnePeriod_def Let_def)

text \<open>
  Claim C10 has no precondition. \<open>Math.max\<close> returns NaN when an argument is NaN, and
  \<open>NaN >= 0\<close> is false: with a NaN strike none of the four payoffs is \<open>>= 0\<close>.
\<close>

theorem payoff_NaN_on_NaN_strike:
  "Cu (computeOnePeriod (canonical\<lparr>K := NaN\<rparr>)) = NaN
   \<and> \<not> js_ge (Cu (computeOnePeriod (canonical\<lparr>K := NaN\<rparr>))) (Fin 0)
   \<and> \<not> js_ge (Cd (computeOnePeriod (canonical\<lparr>K := NaN\<rparr>))) (Fin 0)
   \<and> \<not> js_ge (Pu (computeOnePeriod (canonical\<lparr>K := NaN\<rparr>))) (Fin 0)
   \<and> \<not> js_ge (Pd (computeOnePeriod (canonical\<lparr>K := NaN\<rparr>))) (Fin 0)"
  by (simp add: payoffs canonical_def js_sub_def js_max_def js_ge_def js_le_def)

text \<open>
  Claim C10, amended. For every input each of the four payoffs \<open>Cu\<close>, \<open>Cd\<close>, \<open>Pu\<close>,
  \<open>Pd\<close> is NaN or \<open>>= 0\<close>; when \<open>Su\<close>, \<open>Sd\<close> and \<open>K\<close> are finite, all four are
  \<open>>= 0\<close>.
\<close>

theorem payoffs_nonnegative:
  "(is_nan (Cu (computeOnePeriod i)) \<or> js_ge (Cu (computeOnePeriod i)) (Fin 0))
   \<and> (is_nan (Cd (computeOnePeriod i)) \<or> js_ge (Cd (computeOnePeriod i)) (Fin 0))
   \<and> (is_nan (Pu (computeOnePeriod i)) \<or> js_ge (Pu (computeOnePeriod i)) (Fin 0))
   \<and> (is_nan (Pd (computeOnePeriod i)) \<or> js_ge (Pd (computeOnePeriod i)) (Fin 0))
   \<and> (is_finite (Su i) \<and> is_finite (Sd i) \<and> is_finite (K i) \<longrightarrow>
        js_ge (Cu (computeOnePeriod i)) (Fin 0) \<and> js_ge (Cd (computeOnePeriod i)) (Fin 0)
        \<and> js_ge (Pu (computeOnePeriod i)) (Fin 0) \<and> js_ge (Pd (computeOnePeriod i)) (Fin 0))"
proof -
  have fin: "js_ge (js_max (js_sub a b) (Fin 0)) (Fin 0)" if "is_finite a" "is_finite b" for a b
    using max_zero [of "js_sub a b"] sub_finite_not_nan [OF that] by (simp add: max_zero_nan)
  show ?thesis
    by (simp add: payoffs max_zero fin)
qed

theorem payoffs_nonnegative_witness:
  "js_ge (Cu (computeOnePeriod canonical)) (Fin 0) \<and> js_ge (Cd (computeOnePeriod canonical)) (Fin 0)
   \<and> js_ge (Pu (computeOnePeriod canonical)) (Fin 0) \<and> js_ge (Pd (computeOnePeriod canonical)) (Fin 0)
   \<and> is_nan (Cu (computeOnePeriod (canonical\<lparr>K := NaN\<rparr>)))"
proof -
  have "is_finite (Su canonical) \<and> is_finite (Sd canonical) \<and> is_finite (K canonical)"
    by (simp add: canonical_def)
  moreover have "\<not> js_ge NaN (Fin 0)" by (simp add: js_ge_def js_le_def)
  moreover have "Cu (computeOnePeriod (canonical\<lparr>K := NaN\<rparr>)) = NaN"
    by (simp add: payoffs canonical_def js_sub_def js_max_def)
  ultimately show ?thesis
    using payoffs_nonnegative [of canonical] payoffs_nonnegative [of "canonical\<lparr>K := NaN\<rparr>"]
    by simp
qed



section \<open>Admissible inputs pass validation\<close>

text \<open>
  Claim C3. For every input with five finite fields such that \<open>Sd < S0 < Su\<close>,
  \<open>Su > Sd\<close>, \<open>S0 > 0\<close>, \<open>Su > 0\<close>, \<open>Sd > 0\<close>, \<open>K >= 0\<close> and \<open>rPct > -100\<close>,
  \<open>validateInputs\<close> returns the empty object.
\<close>

theorem admissible_inputs_valid:
  assumes fin: "is_finite (S0 i)" "is_finite (Su i)" "is_finite (Sd i)" "is_finite (K i)"
      "is_finite (rPct i)"
    and between: "js_lt (Sd i) (S0 i)" "js_lt (S0 i) (Su i)"
    and updown: "js_gt (Su i) (Sd i)"
    and pos: "js_gt (S0 i) (Fin 0)" "js_gt (Su i) (Fin 0)" "js_gt (Sd i) (Fin 0)"
    and strike: "js_ge (K i) (Fin 0)"
    and rate: "js_gt (rPct i) (Fin (- 100))"
  shows "validateInputs i = []"
proof -
  have "\<not> rule_violated i k" for k
  proof (cases k)
    case Key_rPct
    from rate fin have "- 100 < val_of (rPct i)" by (simp add: js_gt_def fin_lt)
    then have "\<not> val_of (rPct i) / 100 \<le> - 1" by simp
    with fin show ?thesis by (simp add: Key_rPct rate_finite fin_le)
  next
    case Key_K
    with strike fin show ?thesis by (simp add: js_ge_def fin_le fin_lt)
  qed (use fin between updown pos in \<open>auto simp add: js_gt_def fin_lt fin_le fin_truthy\<close>)
  then show ?thesis by (simp add: validate_empty_iff)
qed

theorem admissible_inputs_valid_witness:
  "validateInputs canonical = []
   \<and> validateInputs \<lparr>S0 = Fin 1, Su = Fin 2, Sd = Fin (1 / 2), K = NegZero, rPct = Fin (- 99)\<rparr> = []"
proof -
  have "validateInputs canonical = []"
    by (rule admissible_inputs_valid) (simp_all add: canonical_def js_gt_def js_ge_def js_le_def)
  moreover have "validateInputs \<lparr>S0 = Fin 1, Su = Fin 2, Sd = Fin (1 / 2), K = NegZero, rPct = Fin (- 99)\<rparr> = []"
    by (rule admissible_inputs_valid) (simp_all add: js_gt_def js_ge_def js_le_def)
  ultimately show ?thesis by simp
qed


section \<open>The rules are independent\<close>

text \<open>
  Claim C4. \<open>validateInputs\<close> returns an object for every input, and its keys are exactly
  the keys of the rules whose guard holds, each once: no rule hides or overwrites another.
  So an input that violates exactly one rule gets exactly the key of that rule, and an input
  that violates two rules gets both keys.
\<close>

theorem rules_independent:
  "set (object_keys (validateInputs i)) = {k. rule_violated i k}
   \<and> distinct (object_keys (validateInputs i))
   \<and> (\<forall>k. (\<forall>k'. rule_violated i k' = (k' = k)) \<longrightarrow> object_keys (validateInputs i) = [k])
   \<and> (\<forall>k1 k2. rule_violated i k1 \<and> rule_violated i k2 \<longrightarrow>
         k1 \<in> set (object_keys (validateInputs i)) \<and> k2 \<in> set (object_keys (validateInputs i)))"
proof (intro conjI allI impI)
  show "set (object_keys (validateInputs i)) = {k. rule_violated i k}"
    by (rule validate_keys)
  show d: "distinct (object_keys (validateInputs i))"
    by (rule validate_distinct)
  show "object_keys (validateInputs i) = [k]" if "\<forall>k'. rule_violated i k' = (k' = k)" for k
  proof -
    from that have "set (object_keys (validateInputs i)) = {k}"
      by (auto simp add: validate_keys)
    with d show ?thesis by (rule distinct_singleton)
  qed
  show "k1 \<in> set (object_keys (validateInputs i))" if "rule_violated i k1 \<and> rule_violated i k2" for k1 k2
    using that by (simp add: validate_keys)
  show "k2 \<in> set (object_keys (validateInputs i))" if "rule_violated i k1 \<and> rule_violated i k2" for k1 k2
    using that by (simp add: validate_keys)
qed


theorem rules_independent_witness:
  "object_keys (validateInputs (canonical\<lparr>K := Fin (- 1)\<rparr>)) = [Key_K]
   \<and> Key_S0 \<in> set (object_keys (validateInputs (canonical\<lparr>S0 := Fin 0, rPct := Fin (- 100)\<rparr>)))
   \<and> Key_rPct \<in> set (object_keys (validateInputs (canonical\<lparr>S0 := Fin 0, rPct := Fin (- 100)\<rparr>)))
   \<and> Key_upDown \<in> set (object_keys (validateInputs (canonical\<lparr>Su := Fin 32\<rparr>)))
   \<and> Key_currentPrice \<in> set (object_keys (validateInputs (canonical\<lparr>Su := Fin 32\<rparr>)))"
proof -
  let ?a = "canonical\<lparr>K := Fin (- 1)\<rparr>"
  let ?b = "canonical\<lparr>S0 := Fin 0, rPct := Fin (- 100)\<rparr>"
  let ?c = "canonical\<lparr>Su := Fin 32\<rparr>"
  have "rule_violated ?a k' = (k' = Key_K)" for k'
    by (cases k') (simp_all add: canonical_def js_cmp_defs js_div_def)
  then have a: "object_keys (validateInputs ?a) = [Key_K]"
    using rules_independent [of ?a] by blast
  have "rule_violated ?b Key_S0 \<and> rule_violated ?b Key_rPct"
    by (simp add: canonical_def js_cmp_defs js_div_def)
  then have b: "Key_S0 \<in> set (object_keys (validateInputs ?b)) \<and> Key_rPct \<in> set (object_keys (validateInputs ?b))"
    using rules_independent [of ?b] by blast
  have "rule_violated ?c Key_upDown \<and> rule_violated ?c Key_currentPrice"
    by (simp add: canonical_def js_cmp_defs js_div_def)
  then have c: "Key_upDown \<in> set (object_keys (validateInputs ?c)) \<and> Key_currentPrice \<in> set (object_keys (validateInputs ?c))"
    using rules_independent [of ?c] by blast
  from a b c show ?thesis by simp
qed



section \<open>Put-call parity\<close>




text \<open>
  Where rounding changes no step, the rounded run is the exact one.
\<close>

lemma fl_Fin: "fl Fin x = x"
  by (cases x) (simp_all add: fl_def)

lemma computeOnePeriod_fl_Fin: "computeOnePeriod_fl Fin i = computeOnePeriod i"
  by (simp add: computeOnePeriod_fl_def computeOnePeriod_def fl_Fin)












end
